theory Spec2Isabelle
  imports Main
begin

section \<open>JavaScript values and plain objects\<close>

text \<open>
  The preferences code of \<^verbatim>\<open>prefs.js\<close> keeps its caches in plain JavaScript objects and
  compares their properties with \<^verbatim>\<open>===\<close>. The values that a read of these objects can
  give are strings, booleans, \<^verbatim>\<open>undefined\<close> (a property that is missing, or an array
  read past the end) and, for a key that names a property of \<^verbatim>\<open>Object.prototype\<close>, the
  value inherited from there: \<^verbatim>\<open>JInherited k\<close> is the value of
  \<^verbatim>\<open>Object.prototype[k]\<close>, a builtin function, or the prototype object itself for
  \<^verbatim>\<open>__proto__\<close>. These inherited values are pairwise different objects, none of
  them is \<^verbatim>\<open>undefined\<close> or \<^verbatim>\<open>null\<close>, and \<^verbatim>\<open>null\<close> never arises otherwise. On
  these values \<^verbatim>\<open>===\<close> is equality of the datatype below.

  A string is a list of bytes: the glyphs of the symbol preset are written as their UTF-8
  encoding, which is injective, and the code only ever compares strings for equality.
\<close>

datatype jsval = JUndefined | JString string | JBool bool | JInherited string

text \<open>
  A plain object is the list of its own properties in the order of their creation.
  (JavaScript moves keys that are array indices to the front when it enumerates; no
  function modelled here can tell: each of them counts the keys, asks a property of all
  of them, or copies them all.) A property may hold \<^verbatim>\<open>undefined\<close> and is then still an
  own property, counted by \<^verbatim>\<open>Object.keys\<close>.
\<close>

type_synonym jsobj = "(string \<times> jsval) list"

text \<open>
  The names of the properties that ECMAScript gives \<^verbatim>\<open>Object.prototype\<close>, the prototype
  of every plain object.
\<close>

definition Object_prototype :: "string list" where
  "Object_prototype =
     [''constructor'', ''toString'', ''toLocaleString'', ''valueOf'', ''hasOwnProperty'',
      ''isPrototypeOf'', ''propertyIsEnumerable'', ''__proto__'', ''__defineGetter__'',
      ''__defineSetter__'', ''__lookupGetter__'', ''__lookupSetter__'']"

text \<open>
  \<^verbatim>\<open>ob[key]\<close>: the own property if there is one, else the property of the prototype,
  else \<^verbatim>\<open>undefined\<close>.
\<close>

definition get_prop :: "jsobj \<Rightarrow> string \<Rightarrow> jsval" where
  "get_prop ob key =
     (case map_of ob key of
        Some v \<Rightarrow> v
      | None \<Rightarrow> (if key \<in> set Object_prototype then JInherited key else JUndefined))"

text \<open>
  Defining an own entry: the value of an existing entry is replaced in place, a new entry
  is appended. This is \<^verbatim>\<open>Map.set\<close> on the map of the entry manager, and the step of
  an assignment that writes an own property.
\<close>

fun set_prop :: "(string \<times> 'a) list \<Rightarrow> string \<Rightarrow> 'a \<Rightarrow> (string \<times> 'a) list" where
  "set_prop [] key v = [(key, v)]"
| "set_prop ((k, w) # rest) key v =
     (if k = key then (k, v) # rest else (k, w) # set_prop rest key v)"

text \<open>
  \<^verbatim>\<open>ob[key] = v\<close> on a plain object. Every inherited property but one is a data
  property, which the assignment shadows by an own property. The exception is
  \<^verbatim>\<open>__proto__\<close>, an accessor: on an object without an own property of that name the
  assignment runs its setter, which ignores a value that is not an object and changes
  nothing when given the prototype object itself. (A builtin function would become the
  prototype; \<^verbatim>\<open>prefs.js\<close> assigns a value read from the prototype only under the key it
  was read from, so no function reaches this setter.)
\<close>

definition assign_prop :: "jsobj \<Rightarrow> string \<Rightarrow> jsval \<Rightarrow> jsobj" where
  "assign_prop ob key v =
     (if key = ''__proto__'' \<and> map_of ob key = None then ob else set_prop ob key v)"

definition Object_keys :: "jsobj \<Rightarrow> string list" where
  "Object_keys ob = map fst ob"

text \<open>\<^verbatim>\<open>a ?? b\<close>: the right operand when the left one is \<^verbatim>\<open>undefined\<close>.\<close>

definition nullish :: "jsval \<Rightarrow> jsval \<Rightarrow> jsval" where
  "nullish a b = (case a of JUndefined \<Rightarrow> b | _ \<Rightarrow> a)"

text \<open>\<^verbatim>\<open>a || b\<close>: the right operand when the left one is falsy.\<close>

definition logical_or :: "jsval \<Rightarrow> jsval \<Rightarrow> jsval" where
  "logical_or a b =
     (case a of JUndefined \<Rightarrow> b
      | JString t \<Rightarrow> (if t = [] then b else a)
      | JBool c \<Rightarrow> (if c then a else b)
      | JInherited k \<Rightarrow> a)"

text \<open>\<^verbatim>\<open>arr[i]\<close> on an array of strings: \<^verbatim>\<open>undefined\<close> past the end.\<close>

definition array_at :: "string list \<Rightarrow> nat \<Rightarrow> jsval" where
  "array_at xs i = (if i < length xs then JString (xs ! i) else JUndefined)"

datatype error = WriteError | TypeError

section \<open>Modifier keys and the symbol preset\<close>

definition MODIFIERS :: "string list" where
  "MODIFIERS = [''shift'', ''caps'', ''control'', ''alt'', ''num'', ''scroll'', ''super'', ''altgr'']"

record modkeys =
  symbol :: string
  icon :: string
  useIcon :: string

definition modifierKeys :: "string \<Rightarrow> modkeys" where
  "modifierKeys name =
     \<lparr>symbol = name @ ''-symbol'', icon = name @ ''-icon-path'', useIcon = name @ ''-use-icon''\<rparr>"

text \<open>
  The list stored under \<^verbatim>\<open>_('Symbols')\<close> in \<^verbatim>\<open>SYMBOL_PRESETS.modifiers\<close>: eight
  entries, one per modifier, the six glyphs U+21E7, U+2303, U+2387, U+21F3, U+2756 and
  U+2388 in UTF-8.
\<close>

definition Symbols_preset :: "string list" where
  "Symbols_preset =
     [[CHR 0xE2, CHR 0x87, CHR 0xA7], ''Caps'', [CHR 0xE2, CHR 0x8C, CHR 0x83],
      [CHR 0xE2, CHR 0x8E, CHR 0x87], ''Num'', [CHR 0xE2, CHR 0x87, CHR 0xB3],
      [CHR 0xE2, CHR 0x9D, CHR 0x96], [CHR 0xE2, CHR 0x8E, CHR 0x88]]"

text \<open>
  The key list built by \<^verbatim>\<open>_createPreferenceGroups\<close>: for every modifier, in order, its
  symbol key, its icon-path key and its use-icon key.
\<close>

definition group_keys :: "string list" where
  "group_keys =
     concat (map (\<lambda>name. let ks = modifierKeys name in [symbol ks, icon ks, useIcon ks]) MODIFIERS)"

section \<open>The settings store\<close>

text \<open>
  Modelled from the spec: the settings store (GSettings and the schema file of the
  extension, both outside \<^verbatim>\<open>prefs.js\<close>). Sections 4.1 and 6 of the specification give
  its contract: for every modifier a string key \<^verbatim>\<open><id>-symbol\<close>, a string key
  \<^verbatim>\<open><id>-icon-path\<close> with default empty, a boolean key \<^verbatim>\<open><id>-use-icon\<close> with
  default false, and the aggregate \<^verbatim>\<open>saved-symbols\<close>, a mapping from string to string
  that is replaced wholesale; a write fails with \<^verbatim>\<open>WriteError\<close> when the key is unknown
  or the value has not the declared type of the key.
\<close>

record ConfigStore =
  strings :: "string \<Rightarrow> string"
  booleans :: "string \<Rightarrow> bool"
  preset :: "(string \<times> string) list"

definition string_keys :: "string list" where
  "string_keys =
     concat (map (\<lambda>name. let ks = modifierKeys name in [symbol ks, icon ks]) MODIFIERS)"

definition boolean_keys :: "string list" where
  "boolean_keys = map (\<lambda>name. useIcon (modifierKeys name)) MODIFIERS"

definition get_string :: "ConfigStore \<Rightarrow> string \<Rightarrow> string" where
  "get_string st key = strings st key"

definition get_boolean :: "ConfigStore \<Rightarrow> string \<Rightarrow> bool" where
  "get_boolean st key = booleans st key"

definition set_string :: "ConfigStore \<Rightarrow> string \<Rightarrow> jsval \<Rightarrow> error + ConfigStore" where
  "set_string st key v =
     (case v of
        JString t \<Rightarrow>
          (if key \<in> set string_keys then Inr (st\<lparr>strings := (strings st)(key := t)\<rparr>)
           else Inl WriteError)
      | _ \<Rightarrow> Inl WriteError)"

definition set_boolean :: "ConfigStore \<Rightarrow> string \<Rightarrow> jsval \<Rightarrow> error + ConfigStore" where
  "set_boolean st key v =
     (case v of
        JBool c \<Rightarrow>
          (if key \<in> set boolean_keys then Inr (st\<lparr>booleans := (booleans st)(key := c)\<rparr>)
           else Inl WriteError)
      | _ \<Rightarrow> Inl WriteError)"

text \<open>
  Modelled from the spec: reading the preset, a mapping from string to string, into a
  plain object. \<^verbatim>\<open>deep_unpack()\<close> of an \<^verbatim>\<open>a{ss}\<close> value gives a fresh object that receives
  the dictionary entries one assignment after the other.
\<close>

definition deep_unpack :: "(string \<times> string) list \<Rightarrow> jsobj" where
  "deep_unpack d = foldl (\<lambda>ob (k, t). assign_prop ob k (JString t)) [] d"

text \<open>
  Modelled from the spec: building the preset, a mapping from string to string, from a
  plain object. \<^verbatim>\<open>new GLib.Variant('a{ss}', ob)\<close> makes one dictionary entry per own
  property; the type \<^verbatim>\<open>a{ss}\<close> holds strings only, so an object with a property that is
  not a string has no such value and the construction fails.
\<close>

fun Variant_ass :: "jsobj \<Rightarrow> error + (string \<times> string) list" where
  "Variant_ass [] = Inr []"
| "Variant_ass ((k, JString t) # rest) =
     (case Variant_ass rest of Inl e \<Rightarrow> Inl e | Inr d \<Rightarrow> Inr ((k, t) # d))"
| "Variant_ass ((k, _) # rest) = Inl TypeError"

text \<open>
  Modelled from the spec: the defaults that the schema file declares (section 6 of the
  specification). The default of a symbol key is "a short glyph or label"; it is taken to
  be the entry of the symbol preset for that modifier (the specification's scenario has
  U+21E7 for \<^verbatim>\<open>shift-symbol\<close>). The store that follows holds these defaults and an empty
  preset.
\<close>

definition schema_default :: "string \<Rightarrow> jsval" where
  "schema_default key =
     (case map_of (zip (map (\<lambda>name. symbol (modifierKeys name)) MODIFIERS) Symbols_preset) key of
        Some t \<Rightarrow> JString t
      | None \<Rightarrow>
          (if key \<in> set (map (\<lambda>name. icon (modifierKeys name)) MODIFIERS) then JString ''''
           else if key \<in> set boolean_keys then JBool False
           else JUndefined))"

definition schema_store :: ConfigStore where
  "schema_store =
     \<lparr>strings = (\<lambda>key. case schema_default key of JString t \<Rightarrow> t | _ \<Rightarrow> ''''),
      booleans = (\<lambda>key. False),
      preset = []\<rparr>"

section \<open>SettingsManager\<close>

record SettingsManager =
  settings :: ConfigStore
  currentSymbols :: jsobj
  currentUseIcon :: jsobj
  savedSymbols :: jsobj

text \<open>
  A failing call leaves the object as it was when the exception was raised: every
  operation that can fail returns the error, if any, together with that state.
\<close>

type_synonym 'a outcome = "error option \<times> 'a"

definition loadCurrentState :: "SettingsManager \<Rightarrow> SettingsManager" where
  "loadCurrentState sm =
     (let sm1 = sm\<lparr>currentSymbols := [], currentUseIcon := []\<rparr>;
          sm2 = foldl (\<lambda>s name.
                  let ks = modifierKeys name;
                      s1 = s\<lparr>currentSymbols :=
                             assign_prop (currentSymbols s) (symbol ks)
                               (JString (get_string (settings s) (symbol ks)))\<rparr>;
                      s2 = s1\<lparr>currentSymbols :=
                             assign_prop (currentSymbols s1) (icon ks)
                               (JString (get_string (settings s1) (icon ks)))\<rparr>
                  in s2\<lparr>currentUseIcon :=
                          assign_prop (currentUseIcon s2) (useIcon ks)
                            (JBool (get_boolean (settings s2) (useIcon ks)))\<rparr>)
                sm1 MODIFIERS
      in sm2\<lparr>savedSymbols := deep_unpack (preset (settings sm2))\<rparr>)"

text \<open>The constructor followed by \<^verbatim>\<open>initialize()\<close> on the given store.\<close>

definition initialize :: "ConfigStore \<Rightarrow> SettingsManager" where
  "initialize st =
     loadCurrentState \<lparr>settings = st, currentSymbols = [], currentUseIcon = [], savedSymbols = []\<rparr>"

definition setString :: "string \<Rightarrow> jsval \<Rightarrow> SettingsManager \<Rightarrow> SettingsManager outcome" where
  "setString key v sm =
     (case set_string (settings sm) key v of
        Inl e \<Rightarrow> (Some e, sm)
      | Inr st \<Rightarrow> (None, sm\<lparr>settings := st, currentSymbols := assign_prop (currentSymbols sm) key v\<rparr>))"

definition setBoolean :: "string \<Rightarrow> jsval \<Rightarrow> SettingsManager \<Rightarrow> SettingsManager outcome" where
  "setBoolean key v sm =
     (case set_boolean (settings sm) key v of
        Inl e \<Rightarrow> (Some e, sm)
      | Inr st \<Rightarrow> (None, sm\<lparr>settings := st, currentUseIcon := assign_prop (currentUseIcon sm) key v\<rparr>))"

text \<open>
  \<^verbatim>\<open>setSavedSymbols\<close> first replaces the saved map by a copy of its argument and then
  writes the aggregate; when the variant cannot be built the copy has already happened.
\<close>

definition setSavedSymbols :: "jsobj \<Rightarrow> SettingsManager \<Rightarrow> SettingsManager outcome" where
  "setSavedSymbols symbols sm =
     (let sm1 = sm\<lparr>savedSymbols := symbols\<rparr> in
      case Variant_ass (savedSymbols sm1) of
        Inl e \<Rightarrow> (Some e, sm1)
      | Inr d \<Rightarrow> (None, sm1\<lparr>settings := (settings sm1)\<lparr>preset := d\<rparr>\<rparr>))"

definition symbolsEqual :: "jsobj \<Rightarrow> jsobj \<Rightarrow> bool" where
  "symbolsEqual obj1 obj2 =
     (let keys1 = Object_keys obj1; keys2 = Object_keys obj2 in
      if length keys1 \<noteq> length keys2 then False
      else list_all (\<lambda>key. nullish (get_prop obj1 key) (JString '''') =
                            nullish (get_prop obj2 key) (JString '''')) keys1)"

definition currentDiffersFromSaved :: "SettingsManager \<Rightarrow> string list \<Rightarrow> bool" where
  "currentDiffersFromSaved sm ks =
     list_ex (\<lambda>key. get_prop (currentSymbols sm) key \<noteq>
                     nullish (get_prop (savedSymbols sm) key) (JString '''')) ks"

section \<open>SimpleManager\<close>

record SimpleManager =
  keys :: "string list"
  defaultValues :: "string list"

definition isCurrentEqualToDefault :: "SimpleManager \<Rightarrow> SettingsManager \<Rightarrow> bool" where
  "isCurrentEqualToDefault m sm =
     list_all (\<lambda>(i, key). get_prop (currentSymbols sm) key = array_at (defaultValues m) i)
       (enumerate 0 (keys m))"

definition isCurrentEqualToSaved :: "SimpleManager \<Rightarrow> SettingsManager \<Rightarrow> bool" where
  "isCurrentEqualToSaved m sm = (\<not> currentDiffersFromSaved sm (keys m))"

text \<open>The single manager that \<^verbatim>\<open>createGroup\<close> is called for.\<close>

definition group_manager :: SimpleManager where
  "group_manager = \<lparr>keys = group_keys, defaultValues = Symbols_preset\<rparr>"

section \<open>EntryManager and the text entries\<close>

text \<open>
  Modelled from the spec: the UI control of sections 4.4, 5 and 6 of the specification, a
  settable value with a \<^verbatim>\<open>changed\<close> event on a single-threaded event loop; the toolkit
  itself is outside the repository. Of a text entry the model keeps its text and how
  often the handler that \<^verbatim>\<open>addEntry\<close> connected is blocked. Writing the text of an entry
  emits \<^verbatim>\<open>changed\<close> during the write when the text differs from the one shown, and an
  emission runs the connected handler unless it is blocked; the text property holds
  strings only, so writing another value fails. A callback handed to
  \<^verbatim>\<open>GLib.idle_add\<close> waits in a queue until the main loop runs it. The file buttons, the
  switches and the stacks only present the cache and are left out.
\<close>

record Entry =
  entry_text :: string
  blocked :: nat

datatype msg =
    Creating_group
  | Group_created
  | Added_entry string string
  | Entry_changed string jsval
  | Updating_entry string string jsval
  | Applying_defaults "string list"
  | Saving_current jsobj
  | Reset_clicked
  | Save_clicked
  | Saved_changed_externally
  | Button_states bool bool

text \<open>
  The state of the preferences window after \<^verbatim>\<open>createGroup\<close>: the settings manager, the
  simple manager and the entry manager of the group, the pending idle callbacks (each
  unblocks the handler of the entry under the given key), the two buttons, and the lines
  written with \<^verbatim>\<open>console.debug\<close> since \<^verbatim>\<open>createGroup\<close> began.
\<close>

record prefs =
  settingsManager :: SettingsManager
  simpleManager :: SimpleManager
  entries :: "(string \<times> Entry) list"
  idle_sources :: "string list"
  resetSensitive :: bool
  saveVisible :: bool
  console :: "msg list"

definition debug :: "msg \<Rightarrow> prefs \<Rightarrow> prefs" where
  "debug m w = w\<lparr>console := console w @ [m]\<rparr>"

text \<open>Sequencing: the second step runs only when the first one raised nothing.\<close>

definition then_do :: "'a outcome \<Rightarrow> ('a \<Rightarrow> 'a outcome) \<Rightarrow> 'a outcome" where
  "then_do r f = (case r of (Some e, s) \<Rightarrow> (Some e, s) | (None, s) \<Rightarrow> f s)"

definition on_settings :: "(SettingsManager \<Rightarrow> SettingsManager outcome) \<Rightarrow> prefs \<Rightarrow> prefs outcome" where
  "on_settings f w = (case f (settingsManager w) of (e, sm) \<Rightarrow> (e, w\<lparr>settingsManager := sm\<rparr>))"

definition updateButtonStates :: "prefs \<Rightarrow> prefs" where
  "updateButtonStates w =
     (let isDefault = isCurrentEqualToDefault (simpleManager w) (settingsManager w);
          isSaved = isCurrentEqualToSaved (simpleManager w) (settingsManager w)
      in debug (Button_states (\<not> isDefault) (\<not> isSaved))
           (w\<lparr>resetSensitive := \<not> isDefault, saveVisible := \<not> isSaved\<rparr>))"

text \<open>The callback \<^verbatim>\<open>onEntryChanged\<close> that \<^verbatim>\<open>createGroup\<close> passes down.\<close>

definition onEntryChanged :: "prefs \<Rightarrow> prefs" where
  "onEntryChanged w = updateButtonStates w"

text \<open>
  The user-edit callback that \<^verbatim>\<open>_createEntryRows\<close> registers for the entry of a symbol
  key; its \<^verbatim>\<open>fullKey\<close> is the key the entry is registered under.
\<close>

definition changeCallback :: "string \<Rightarrow> jsval \<Rightarrow> prefs \<Rightarrow> prefs outcome" where
  "changeCallback changedKey newValue w =
     (let fullKey = changedKey in
      if get_prop (currentSymbols (settingsManager w)) fullKey \<noteq> newValue then
        then_do (on_settings (setString fullKey newValue) w) (\<lambda>w1. (None, onEntryChanged w1))
      else (None, w))"

text \<open>The handler that \<^verbatim>\<open>addEntry\<close> connects to \<^verbatim>\<open>changed\<close>.\<close>

definition changed_handler :: "string \<Rightarrow> prefs \<Rightarrow> prefs outcome" where
  "changed_handler key w =
     (case map_of (entries w) key of
        None \<Rightarrow> (None, w)
      | Some entry \<Rightarrow>
          (let newValue = JString (entry_text entry) in
           changeCallback key newValue (debug (Entry_changed key newValue) w)))"

definition addEntry :: "string \<Rightarrow> Entry \<Rightarrow> prefs \<Rightarrow> prefs" where
  "addEntry key entry w =
     debug (Added_entry key (entry_text entry)) (w\<lparr>entries := set_prop (entries w) key entry\<rparr>)"

text \<open>\<^verbatim>\<open>entry.text = v\<close>, by the program or by the user typing.\<close>

definition set_text :: "string \<Rightarrow> jsval \<Rightarrow> prefs \<Rightarrow> prefs outcome" where
  "set_text key v w =
     (case v of
        JString t \<Rightarrow>
          (case map_of (entries w) key of
             None \<Rightarrow> (None, w)
           | Some entry \<Rightarrow>
               (if entry_text entry = t then (None, w)
                else
                  (let w1 = w\<lparr>entries := set_prop (entries w) key (entry\<lparr>entry_text := t\<rparr>)\<rparr> in
                   if blocked entry = 0 then changed_handler key w1 else (None, w1))))
      | _ \<Rightarrow> (Some TypeError, w))"

definition block_signal_handler :: "string \<Rightarrow> prefs \<Rightarrow> prefs" where
  "block_signal_handler key w =
     (case map_of (entries w) key of
        None \<Rightarrow> w
      | Some entry \<Rightarrow> w\<lparr>entries := set_prop (entries w) key (entry\<lparr>blocked := Suc (blocked entry)\<rparr>)\<rparr>)"

definition unblock_signal_handler :: "string \<Rightarrow> prefs \<Rightarrow> prefs" where
  "unblock_signal_handler key w =
     (case map_of (entries w) key of
        None \<Rightarrow> w
      | Some entry \<Rightarrow> w\<lparr>entries := set_prop (entries w) key (entry\<lparr>blocked := blocked entry - 1\<rparr>)\<rparr>)"

definition idle_add :: "string \<Rightarrow> prefs \<Rightarrow> prefs" where
  "idle_add key w = w\<lparr>idle_sources := idle_sources w @ [key]\<rparr>"

text \<open>One turn of the main loop with nothing else to do: the oldest idle callback runs.\<close>

definition run_idle :: "prefs \<Rightarrow> prefs" where
  "run_idle w =
     (case idle_sources w of
        [] \<Rightarrow> w
      | key # rest \<Rightarrow> unblock_signal_handler key (w\<lparr>idle_sources := rest\<rparr>))"

definition updateEntry :: "string \<Rightarrow> jsval \<Rightarrow> prefs \<Rightarrow> prefs outcome" where
  "updateEntry key v w =
     (case map_of (entries w) key of
        None \<Rightarrow> (None, w)
      | Some entry \<Rightarrow>
          (let w1 = block_signal_handler key w;
               w2 = debug (Updating_entry key (entry_text entry) v) w1
           in then_do (set_text key v w2) (\<lambda>w3. (None, idle_add key w3))))"

section \<open>Reset and save\<close>

fun applyDefaults_each :: "(nat \<times> string) list \<Rightarrow> prefs \<Rightarrow> prefs outcome" where
  "applyDefaults_each [] w = (None, w)"
| "applyDefaults_each ((i, key) # rest) w =
     (let v = array_at (defaultValues (simpleManager w)) i in
      if get_prop (currentSymbols (settingsManager w)) key \<noteq> v then
        (case updateEntry key v w of
           (Some e, w1) \<Rightarrow> (Some e, w1)
         | (None, w1) \<Rightarrow>
             (case on_settings (setString key v) w1 of
                (Some e, w2) \<Rightarrow> (Some e, w2)
              | (None, w2) \<Rightarrow> applyDefaults_each rest w2))
      else applyDefaults_each rest w)"

definition applyDefaults :: "prefs \<Rightarrow> prefs outcome" where
  "applyDefaults w =
     applyDefaults_each (enumerate 0 (keys (simpleManager w)))
       (debug (Applying_defaults (defaultValues (simpleManager w))) w)"

definition saveCurrentAsPreset :: "prefs \<Rightarrow> prefs outcome" where
  "saveCurrentAsPreset w =
     (let sm1 = foldl (\<lambda>s key. s\<lparr>savedSymbols :=
                          assign_prop (savedSymbols s) key (get_prop (currentSymbols s) key)\<rparr>)
                  (settingsManager w) (keys (simpleManager w));
          w1 = debug (Saving_current (savedSymbols sm1)) (w\<lparr>settingsManager := sm1\<rparr>)
      in on_settings (setSavedSymbols (savedSymbols (settingsManager w1))) w1)"

section \<open>GroupBuilder: the handlers of the group\<close>

definition reset_clicked :: "prefs \<Rightarrow> prefs outcome" where
  "reset_clicked w =
     then_do (applyDefaults (debug Reset_clicked w)) (\<lambda>w1. (None, updateButtonStates w1))"

definition save_clicked :: "prefs \<Rightarrow> prefs outcome" where
  "save_clicked w =
     then_do (saveCurrentAsPreset (debug Save_clicked w)) (\<lambda>w1. (None, updateButtonStates w1))"

definition saved_symbols_changed :: "prefs \<Rightarrow> prefs" where
  "saved_symbols_changed w =
     (let w1 = debug Saved_changed_externally w;
          newSavedSymbols = deep_unpack (preset (settings (settingsManager w1)))
      in if \<not> symbolsEqual (savedSymbols (settingsManager w1)) newSavedSymbols then
           updateButtonStates
             (w1\<lparr>settingsManager := (settingsManager w1)\<lparr>savedSymbols := newSavedSymbols\<rparr>\<rparr>)
         else w1)"

definition symbol_changed :: "string \<Rightarrow> prefs \<Rightarrow> prefs outcome" where
  "symbol_changed name w =
     (let ks = modifierKeys name;
          newValue = JString (get_string (settings (settingsManager w)) (symbol ks))
      in if get_prop (currentSymbols (settingsManager w)) (symbol ks) \<noteq> newValue then
           (let sm = settingsManager w;
                w1 = w\<lparr>settingsManager :=
                       sm\<lparr>currentSymbols := assign_prop (currentSymbols sm) (symbol ks) newValue\<rparr>\<rparr>
            in then_do (updateEntry (symbol ks) newValue w1) (\<lambda>w2. (None, onEntryChanged w2)))
         else (None, w))"

definition icon_changed :: "string \<Rightarrow> prefs \<Rightarrow> prefs" where
  "icon_changed name w =
     (let ks = modifierKeys name;
          newValue = JString (get_string (settings (settingsManager w)) (icon ks))
      in if get_prop (currentSymbols (settingsManager w)) (icon ks) \<noteq> newValue then
           (let sm = settingsManager w in
            onEntryChanged
              (w\<lparr>settingsManager :=
                   sm\<lparr>currentSymbols := assign_prop (currentSymbols sm) (icon ks) newValue\<rparr>\<rparr>))
         else w)"

definition use_icon_changed :: "string \<Rightarrow> prefs \<Rightarrow> prefs" where
  "use_icon_changed name w =
     (let ks = modifierKeys name;
          newVal = JBool (get_boolean (settings (settingsManager w)) (useIcon ks))
      in if get_prop (currentUseIcon (settingsManager w)) (useIcon ks) \<noteq> newVal then
           (let sm = settingsManager w in
            onEntryChanged
              (w\<lparr>settingsManager :=
                   sm\<lparr>currentUseIcon := assign_prop (currentUseIcon sm) (useIcon ks) newVal\<rparr>\<rparr>))
         else w)"

definition file_picked :: "string \<Rightarrow> string \<Rightarrow> prefs \<Rightarrow> prefs outcome" where
  "file_picked name path w =
     (let ks = modifierKeys name; newValue = JString path in
      if get_prop (currentSymbols (settingsManager w)) (icon ks) \<noteq> newValue then
        then_do (on_settings (setString (icon ks) newValue) w) (\<lambda>w1. (None, onEntryChanged w1))
      else (None, w))"

definition switch_state_set :: "string \<Rightarrow> bool \<Rightarrow> prefs \<Rightarrow> prefs outcome" where
  "switch_state_set name isActive w =
     (let ks = modifierKeys name in
      then_do (on_settings (setBoolean (useIcon ks) (JBool isActive)) w)
        (\<lambda>w1. (None, onEntryChanged w1)))"

text \<open>
  What can happen to an open preferences window: the user types into the entry of a
  modifier, picks a file, flips a switch, clicks one of the two buttons; the store
  announces a change of one of its keys; the main loop runs an idle callback. A
  notification of the store is an event of its own: its handler runs after the handler
  that wrote to the store has returned, and reads the store as it then is.
\<close>

datatype event =
    User_typed string string
  | File_picked string string
  | Switch_set string bool
  | Reset_click
  | Save_click
  | Store_changed_symbol string
  | Store_changed_icon string
  | Store_changed_use_icon string
  | Store_changed_saved
  | Idle

fun handle :: "event \<Rightarrow> prefs \<Rightarrow> prefs outcome" where
  "handle (User_typed name t) w = set_text (symbol (modifierKeys name)) (JString t) w"
| "handle (File_picked name path) w = file_picked name path w"
| "handle (Switch_set name isActive) w = switch_state_set name isActive w"
| "handle Reset_click w = reset_clicked w"
| "handle Save_click w = save_clicked w"
| "handle (Store_changed_symbol name) w = symbol_changed name w"
| "handle (Store_changed_icon name) w = (None, icon_changed name w)"
| "handle (Store_changed_use_icon name) w = (None, use_icon_changed name w)"
| "handle Store_changed_saved w = (None, saved_symbols_changed w)"
| "handle Idle w = (None, run_idle w)"

section \<open>Building the group\<close>

fun createEntryRows :: "string list \<Rightarrow> prefs \<Rightarrow> prefs outcome" where
  "createEntryRows [] w = (None, w)"
| "createEntryRows (name # rest) w =
     (let ks = modifierKeys name in
      case logical_or (get_prop (currentSymbols (settingsManager w)) (symbol ks)) (JString '''') of
        JString t \<Rightarrow> createEntryRows rest (addEntry (symbol ks) \<lparr>entry_text = t, blocked = 0\<rparr> w)
      | _ \<Rightarrow> (Some TypeError, w))"

definition createGroup :: "SettingsManager \<Rightarrow> string list \<Rightarrow> string list \<Rightarrow> prefs outcome" where
  "createGroup sm ks ds =
     (let w0 = \<lparr>settingsManager = sm, simpleManager = \<lparr>keys = ks, defaultValues = ds\<rparr>,
                entries = [], idle_sources = [], resetSensitive = True, saveVisible = False,
                console = [Creating_group]\<rparr>;
          w1 = updateButtonStates w0
      in then_do (createEntryRows MODIFIERS w1) (\<lambda>w2. (None, debug Group_created w2)))"

definition fillPreferencesWindow :: "ConfigStore \<Rightarrow> prefs outcome" where
  "fillPreferencesWindow st = createGroup (initialize st) group_keys Symbols_preset"

section \<open>The properties, and the windows they are tried on\<close>

text \<open>
  The cached current value of a key, as the specification's single \<^verbatim>\<open>current\<close> record
  has it: \<^verbatim>\<open>_loadCurrentState\<close> keeps the use-icon flags in \<^verbatim>\<open>currentUseIcon\<close> and
  the strings in \<^verbatim>\<open>currentSymbols\<close>.
\<close>

definition cached_value :: "SettingsManager \<Rightarrow> string \<Rightarrow> jsval" where
  "cached_value sm key =
     (if key \<in> set boolean_keys then get_prop (currentUseIcon sm) key
      else get_prop (currentSymbols sm) key)"

text \<open>
  The two states of section 4.5 of the specification, in the specification's words and
  not in those of the code. At the defaults: every key of the list has its schema default
  as cached current value. At the saved preset: every key that the preset is about, the
  symbol and icon-path keys (the use-icon flags are no part of the preset), has the saved
  value as cached current value, a key that the saved map omits counting as the empty
  string.
\<close>

definition at_defaults :: "SettingsManager \<Rightarrow> string list \<Rightarrow> bool" where
  "at_defaults sm ks = list_all (\<lambda>key. cached_value sm key = schema_default key) ks"

definition at_saved :: "SettingsManager \<Rightarrow> bool" where
  "at_saved sm =
     list_all (\<lambda>key. cached_value sm key = nullish (get_prop (savedSymbols sm) key) (JString ''''))
       string_keys"

text \<open>The preferences window as it opens on a store that holds the schema defaults.\<close>

definition initial_prefs :: prefs where
  "initial_prefs = snd (fillPreferencesWindow schema_store)"

text \<open>
  A second window, for a manager over the eight symbol keys alone, on a store in which
  the user has changed the shift symbol and the preset holds one foreign entry.
\<close>

definition symbol_keys :: "string list" where
  "symbol_keys = map (\<lambda>name. symbol (modifierKeys name)) MODIFIERS"

definition edited_store :: ConfigStore where
  "edited_store =
     schema_store\<lparr>strings := (strings schema_store)(''shift-symbol'' := ''S''),
                  preset := [(''theme'', ''dark'')]\<rparr>"

definition symbols_only_prefs :: prefs where
  "symbols_only_prefs = snd (createGroup (initialize edited_store) symbol_keys Symbols_preset)"

text \<open>
  In the window opened on the schema defaults the user types \<^verbatim>\<open>S\<close> into the entry of
  shift and then types the default glyph back.
\<close>

definition typed_prefs :: prefs where
  "typed_prefs = snd (handle (User_typed ''shift'' ''S'') initial_prefs)"

definition retyped_prefs :: prefs where
  "retyped_prefs = snd (handle (User_typed ''shift'' [CHR 0xE2, CHR 0x87, CHR 0xA7]) typed_prefs)"

text \<open>
  The same two edits in the window of the program opened on a store that holds the schema
  defaults and whose preset holds the default of every symbol and icon-path key.
\<close>

definition preset_store :: ConfigStore where
  "preset_store =
     schema_store\<lparr>preset := map (\<lambda>key. (key, strings schema_store key)) string_keys\<rparr>"

definition preset_prefs :: prefs where
  "preset_prefs =
     snd (handle (User_typed ''shift'' [CHR 0xE2, CHR 0x87, CHR 0xA7])
       (snd (handle (User_typed ''shift'' ''S'') (snd (fillPreferencesWindow preset_store)))))"

section \<open>Objects and outcomes\<close>

lemma map_of_set_prop: "map_of (set_prop xs k v) = (map_of xs)(k \<mapsto> v)"
  by (induction xs k v rule: set_prop.induct) auto

lemma keys_set_prop: "fst ` set (set_prop xs k v) = insert k (fst ` set xs)"
  by (induction xs k v rule: set_prop.induct) auto

lemma set_prop_twice: "set_prop (set_prop xs k v) k v' = set_prop xs k v'"
  by (induction xs k v rule: set_prop.induct) auto

lemma set_prop_fresh: "k \<notin> fst ` set xs \<Longrightarrow> set_prop xs k v = xs @ [(k, v)]"
  by (induction xs k v rule: set_prop.induct) auto

lemma distinct_set_prop:
  "distinct (map fst xs) \<Longrightarrow> distinct (map fst (set_prop xs k v))"
  by (induction xs k v rule: set_prop.induct) (auto simp: keys_set_prop)

lemma map_of_assign_prop:
  "map_of (assign_prop ob k v) k' =
     (if k' = k \<and> \<not> (k = ''__proto__'' \<and> map_of ob k = None) then Some v else map_of ob k')"
  by (auto simp: assign_prop_def map_of_set_prop)

lemma get_prop_assign_prop:
  "k \<noteq> ''__proto__'' \<Longrightarrow>
     get_prop (assign_prop ob k v) k' = (if k' = k then v else get_prop ob k')"
  by (simp add: get_prop_def map_of_assign_prop)

lemma get_prop_assign_prop_other:
  "k' \<noteq> k \<Longrightarrow> get_prop (assign_prop ob k v) k' = get_prop ob k'"
  by (simp add: get_prop_def map_of_assign_prop)

lemma distinct_assign_prop:
  "distinct (map fst xs) \<Longrightarrow> distinct (map fst (assign_prop xs k v))"
  by (simp add: assign_prop_def distinct_set_prop)

lemma assign_prop_fresh:
  "k \<notin> fst ` set xs \<Longrightarrow> k \<noteq> ''__proto__'' \<Longrightarrow> assign_prop xs k v = xs @ [(k, v)]"
  by (simp add: assign_prop_def set_prop_fresh)

lemma proto_no_string_key: "''__proto__'' \<notin> set string_keys"
  by code_simp

lemma then_do_None:
  "then_do r f = (None, s') \<longleftrightarrow> (\<exists>s. r = (None, s) \<and> f s = (None, s'))"
  by (cases r) (auto simp: then_do_def split: option.splits)

lemma map_snd_enumerate: "map snd (enumerate n xs) = xs"
  by (induction xs arbitrary: n) auto

section \<open>Comparing the cache with the saved preset\<close>




text \<open>
  C10, as the claim states it: two maps with equal key counts, different key sets and
  empty strings for all values compare equal. They do not when a key of the first map
  that the second lacks names a property of \<^verbatim>\<open>Object.prototype\<close>:
  \<^verbatim>\<open>symbolsEqual({toString: ""}, {a: ""})\<close> is false, because \<^verbatim>\<open>obj2["toString"]\<close> is
  the inherited function and not \<^verbatim>\<open>undefined\<close>.
\<close>

theorem symbolsEqual_inherited_counterexample:
  "length (Object_keys [(''toString'', JString '''')]) = length (Object_keys [(''a'', JString '''')])
   \<and> set (Object_keys [(''toString'', JString '''')]) \<noteq> set (Object_keys [(''a'', JString '''')])
   \<and> \<not> symbolsEqual [(''toString'', JString '''')] [(''a'', JString '''')]"
  by code_simp

text \<open>
  C10, amended: \<^verbatim>\<open>symbolsEqual\<close> is false whenever the two maps have different numbers
  of keys; with equal numbers it is true exactly when
  \<^verbatim>\<open>(m1[k] ?? "") === (m2[k] ?? "")\<close> for every key of the first map, both sides read
  as JavaScript reads a property. So two maps with equal key counts whose values are all
  empty strings compare equal, whatever their key sets, provided that no key of the first
  map that the second lacks is the name of a property inherited from
  \<^verbatim>\<open>Object.prototype\<close>; and a map is unequal to the same map with one more key present
  as the empty string.
\<close>

theorem symbolsEqual_iff:
  "(length (Object_keys m1) \<noteq> length (Object_keys m2) \<longrightarrow> \<not> symbolsEqual m1 m2)
   \<and> (length (Object_keys m1) = length (Object_keys m2) \<longrightarrow>
        (symbolsEqual m1 m2 \<longleftrightarrow>
          (\<forall>k\<in>set (Object_keys m1). nullish (get_prop m1 k) (JString '''') =
                                    nullish (get_prop m2 k) (JString ''''))))
   \<and> (length (Object_keys m1) = length (Object_keys m2)
        \<and> snd ` set m1 \<subseteq> {JString ''''} \<and> snd ` set m2 \<subseteq> {JString ''''}
        \<and> set (Object_keys m1) \<inter> set Object_prototype \<subseteq> set (Object_keys m2) \<longrightarrow>
        symbolsEqual m1 m2)
   \<and> (k \<notin> set (Object_keys m1) \<longrightarrow> \<not> symbolsEqual m1 (m1 @ [(k, JString '''')]))"
proof -
  have read: "nullish (get_prop m k) (JString '''') = JString ''''"
    if "snd ` set m \<subseteq> {JString ''''}" and "k \<in> fst ` set m \<or> k \<notin> set Object_prototype"
    for m k
  proof (cases "map_of m k")
    case None
    then have "k \<notin> fst ` set m" by (simp add: map_of_eq_None_iff)
    with that None show ?thesis by (simp add: get_prop_def nullish_def)
  next
    case (Some v)
    then have "(k, v) \<in> set m" by (rule map_of_SomeD)
    then have "v \<in> snd ` set m" by force
    with that(1) have "v = JString ''''" by blast
    with Some show ?thesis by (simp add: get_prop_def nullish_def)
  qed
  have same: "symbolsEqual m1 m2"
    if "length (Object_keys m1) = length (Object_keys m2)"
      and "snd ` set m1 \<subseteq> {JString ''''}" and "snd ` set m2 \<subseteq> {JString ''''}"
      and "set (Object_keys m1) \<inter> set Object_prototype \<subseteq> set (Object_keys m2)"
  proof -
    have "nullish (get_prop m1 k) (JString '''') = nullish (get_prop m2 k) (JString '''')"
      if "k \<in> set (Object_keys m1)" for k
    proof -
      from that have "k \<in> fst ` set m1" by (simp add: Object_keys_def)
      then have "nullish (get_prop m1 k) (JString '''') = JString ''''"
        using read \<open>snd ` set m1 \<subseteq> {JString ''''}\<close> by blast
      moreover have "k \<in> fst ` set m2 \<or> k \<notin> set Object_prototype"
        using that \<open>set (Object_keys m1) \<inter> set Object_prototype \<subseteq> set (Object_keys m2)\<close>
        by (auto simp: Object_keys_def)
      then have "nullish (get_prop m2 k) (JString '''') = JString ''''"
        using read \<open>snd ` set m2 \<subseteq> {JString ''''}\<close> by blast
      ultimately show ?thesis by simp
    qed
    with that(1) show ?thesis by (simp add: symbolsEqual_def Let_def list_all_iff)
  qed
  have "(length (Object_keys m1) \<noteq> length (Object_keys m2) \<longrightarrow> \<not> symbolsEqual m1 m2)
     \<and> (length (Object_keys m1) = length (Object_keys m2) \<longrightarrow>
        (symbolsEqual m1 m2 \<longleftrightarrow>
          (\<forall>k\<in>set (Object_keys m1). nullish (get_prop m1 k) (JString '''') =
                                    nullish (get_prop m2 k) (JString ''''))))
     \<and> (k \<notin> set (Object_keys m1) \<longrightarrow> \<not> symbolsEqual m1 (m1 @ [(k, JString '''')]))"
    by (simp add: symbolsEqual_def Let_def list_all_iff Object_keys_def)
  with same show ?thesis by blast
qed

theorem symbolsEqual_iff_witness:
  "length (Object_keys [(''a'', JString '''')]) = length (Object_keys [(''b'', JString '''')])
   \<and> set (Object_keys [(''a'', JString '''')]) \<noteq> set (Object_keys [(''b'', JString '''')])
   \<and> ''a'' \<notin> set Object_prototype
   \<and> symbolsEqual [(''a'', JString '''')] [(''b'', JString '''')]
   \<and> length (Object_keys []) \<noteq> length (Object_keys [(''a'', JString '''')])
   \<and> ''a'' \<notin> set (Object_keys [])
   \<and> \<not> symbolsEqual [] ([] @ [(''a'', JString '''')])"
proof -
  have same: "length (Object_keys [(''a'', JString '''')]) = length (Object_keys [(''b'', JString '''')])"
    by (simp add: Object_keys_def)
  have differ: "set (Object_keys [(''a'', JString '''')]) \<noteq> set (Object_keys [(''b'', JString '''')])"
    by (simp add: Object_keys_def)
  have plain: "''a'' \<notin> set Object_prototype" by code_simp
  have fresh: "''a'' \<notin> set (Object_keys [])" by (simp add: Object_keys_def)
  have fewer: "length (Object_keys []) \<noteq> length (Object_keys [(''a'', JString '''')])"
    by (simp add: Object_keys_def)
  have lacking: "set (Object_keys [(''a'', JString '''')]) \<inter> set Object_prototype
      \<subseteq> set (Object_keys [(''b'', JString '''')])"
    using plain by (simp add: Object_keys_def)
  have empty: "snd ` set [(''a'', JString '''')] \<subseteq> {JString ''''}"
    "snd ` set [(''b'', JString '''')] \<subseteq> {JString ''''}"
    by simp_all
  from symbolsEqual_iff[of "[(''a'', JString '''')]" "[(''b'', JString '''')]" "''a''"]
    same lacking empty
  have equal: "symbolsEqual [(''a'', JString '''')] [(''b'', JString '''')]" by blast
  from symbolsEqual_iff[of "[]" "[(''a'', JString '''')]" "''a''"] fresh
  have unequal: "\<not> symbolsEqual [] ([] @ [(''a'', JString '''')])" by blast
  from same differ plain equal fewer fresh unequal show ?thesis by blast
qed

section \<open>Pushing a value into an entry\<close>

lemma updateEntry_bound:
  assumes "map_of (entries w) key = Some entry"
  shows "updateEntry key (JString t) w =
     (None, w\<lparr>entries := set_prop (entries w) key \<lparr>entry_text = t, blocked = Suc (blocked entry)\<rparr>,
              idle_sources := idle_sources w @ [key],
              console := console w @ [Updating_entry key (entry_text entry) (JString t)]\<rparr>)"
  using assms
  by (cases entry)
     (simp add: updateEntry_def block_signal_handler_def debug_def set_text_def then_do_def
      idle_add_def map_of_set_prop set_prop_twice Let_def)

lemma updateEntry_not_string:
  assumes "map_of (entries w) key = Some entry" and "\<forall>t. v \<noteq> JString t"
  shows "updateEntry key v w =
     (Some TypeError,
      w\<lparr>entries := set_prop (entries w) key (entry\<lparr>blocked := Suc (blocked entry)\<rparr>),
        console := console w @ [Updating_entry key (entry_text entry) v]\<rparr>)"
  using assms
  by (cases v)
     (simp_all add: updateEntry_def block_signal_handler_def debug_def set_text_def then_do_def
      Let_def)

lemma updateEntry_frame:
  assumes "updateEntry key v w = (r, w')"
  shows "settingsManager w' = settingsManager w \<and> simpleManager w' = simpleManager w
     \<and> resetSensitive w' = resetSensitive w \<and> saveVisible w' = saveVisible w"
proof (cases "map_of (entries w) key")
  case None
  with assms show ?thesis by (simp add: updateEntry_def)
next
  case (Some entry)
  with assms show ?thesis
    by (cases v)
       (auto simp: updateEntry_def block_signal_handler_def debug_def set_text_def then_do_def
        idle_add_def map_of_set_prop Let_def split: if_splits)
qed

text \<open>
  For comparison: when the user changes the text of an entry whose handler is not
  blocked, the handler runs and writes its line.
\<close>

lemma user_edit_runs_callback:
  assumes "map_of (entries w) key = Some entry" and "blocked entry = 0"
    and "entry_text entry \<noteq> t"
  shows "Entry_changed key (JString t) \<in> set (console (snd (set_text key (JString t) w)))"
  using assms
  by (auto simp: set_text_def changed_handler_def changeCallback_def Let_def map_of_set_prop
      then_do_def on_settings_def setString_def debug_def onEntryChanged_def
      updateButtonStates_def split: sum.splits)

text \<open>
  C7: for an entry that is bound under the key, \<^verbatim>\<open>updateEntry(key, v)\<close> does not run the
  user-edit callback: the only line it writes is its own, the handler's line is not
  written, and the settings manager is untouched. The handler is blocked before the
  write and is still blocked when \<^verbatim>\<open>updateEntry\<close> returns. For a value from the store, a
  string, the call completes, the entry shows the value, the unblocking waits in the idle
  queue, and the handler is as before once the main loop has run that callback.
\<close>

theorem pushValue_anti_echo:
  assumes "map_of (entries w) key = Some entry"
  shows "console (snd (updateEntry key v w)) = console w @ [Updating_entry key (entry_text entry) v]
     \<and> settingsManager (snd (updateEntry key v w)) = settingsManager w
     \<and> map_option blocked (map_of (entries (snd (updateEntry key v w))) key) =
          Some (Suc (blocked entry))
     \<and> (v = JString t \<longrightarrow>
          fst (updateEntry key v w) = None
          \<and> map_of (entries (snd (updateEntry key v w))) key =
              Some \<lparr>entry_text = t, blocked = Suc (blocked entry)\<rparr>
          \<and> idle_sources (snd (updateEntry key v w)) = idle_sources w @ [key]
          \<and> (idle_sources w = [] \<longrightarrow>
               map_of (entries (run_idle (snd (updateEntry key v w)))) key =
                 Some \<lparr>entry_text = t, blocked = blocked entry\<rparr>))"
proof (cases "\<exists>t. v = JString t")
  case True
  then obtain t' where v: "v = JString t'" by blast
  show ?thesis
    unfolding v updateEntry_bound[OF assms]
    by (simp add: map_of_set_prop run_idle_def unblock_signal_handler_def)
next
  case False
  then have "\<forall>t. v \<noteq> JString t" by blast
  from updateEntry_not_string[OF assms this] False show ?thesis
    by (simp add: map_of_set_prop)
qed

theorem pushValue_anti_echo_witness:
  "map_of (entries initial_prefs) ''shift-symbol'' =
       Some \<lparr>entry_text = [CHR 0xE2, CHR 0x87, CHR 0xA7], blocked = 0\<rparr>
   \<and> idle_sources initial_prefs = []
   \<and> fst (updateEntry ''shift-symbol'' (JString ''S'') initial_prefs) = None
   \<and> console (snd (updateEntry ''shift-symbol'' (JString ''S'') initial_prefs)) =
       console initial_prefs @
         [Updating_entry ''shift-symbol'' [CHR 0xE2, CHR 0x87, CHR 0xA7] (JString ''S'')]
   \<and> map_of (entries (snd (updateEntry ''shift-symbol'' (JString ''S'') initial_prefs)))
         ''shift-symbol'' = Some \<lparr>entry_text = ''S'', blocked = 1\<rparr>
   \<and> map_of (entries (run_idle (snd (updateEntry ''shift-symbol'' (JString ''S'') initial_prefs))))
         ''shift-symbol'' = Some \<lparr>entry_text = ''S'', blocked = 0\<rparr>"
proof -
  have bound: "map_of (entries initial_prefs) ''shift-symbol'' =
      Some \<lparr>entry_text = [CHR 0xE2, CHR 0x87, CHR 0xA7], blocked = 0\<rparr>"
    by code_simp
  have quiet: "idle_sources initial_prefs = []" by code_simp
  from pushValue_anti_echo[OF bound, of "JString ''S''" "''S''"] bound quiet
  show ?thesis by simp
qed

section \<open>Notifications that echo the cache\<close>

text \<open>
  C8: when the store announces a change of a key and the value it now holds is the value
  the cache already has, the handler does nothing at all: the whole state of the window
  is as before, so no line about the buttons is written, no entry is touched and the
  cache is unchanged. This holds for the symbol key, the icon-path key and the use-icon
  key of every modifier.
\<close>

theorem reconcile_noop:
  "(JString (get_string (settings (settingsManager w)) (symbol (modifierKeys name))) =
      get_prop (currentSymbols (settingsManager w)) (symbol (modifierKeys name)) \<longrightarrow>
      handle (Store_changed_symbol name) w = (None, w))
   \<and> (JString (get_string (settings (settingsManager w)) (icon (modifierKeys name))) =
      get_prop (currentSymbols (settingsManager w)) (icon (modifierKeys name)) \<longrightarrow>
      handle (Store_changed_icon name) w = (None, w))
   \<and> (JBool (get_boolean (settings (settingsManager w)) (useIcon (modifierKeys name))) =
      get_prop (currentUseIcon (settingsManager w)) (useIcon (modifierKeys name)) \<longrightarrow>
      handle (Store_changed_use_icon name) w = (None, w))"
  by (simp add: symbol_changed_def icon_changed_def use_icon_changed_def Let_def)

theorem reconcile_noop_witness:
  "JString (get_string (settings (settingsManager initial_prefs)) (symbol (modifierKeys ''shift''))) =
      get_prop (currentSymbols (settingsManager initial_prefs)) (symbol (modifierKeys ''shift''))
   \<and> JString (get_string (settings (settingsManager initial_prefs)) (icon (modifierKeys ''shift''))) =
      get_prop (currentSymbols (settingsManager initial_prefs)) (icon (modifierKeys ''shift''))
   \<and> JBool (get_boolean (settings (settingsManager initial_prefs)) (useIcon (modifierKeys ''shift''))) =
      get_prop (currentUseIcon (settingsManager initial_prefs)) (useIcon (modifierKeys ''shift''))
   \<and> handle (Store_changed_symbol ''shift'') initial_prefs = (None, initial_prefs)
   \<and> handle (Store_changed_icon ''shift'') initial_prefs = (None, initial_prefs)
   \<and> handle (Store_changed_use_icon ''shift'') initial_prefs = (None, initial_prefs)"
proof -
  have s: "JString (get_string (settings (settingsManager initial_prefs)) (symbol (modifierKeys ''shift''))) =
      get_prop (currentSymbols (settingsManager initial_prefs)) (symbol (modifierKeys ''shift''))"
    by code_simp
  have i: "JString (get_string (settings (settingsManager initial_prefs)) (icon (modifierKeys ''shift''))) =
      get_prop (currentSymbols (settingsManager initial_prefs)) (icon (modifierKeys ''shift''))"
    by code_simp
  have u: "JBool (get_boolean (settings (settingsManager initial_prefs)) (useIcon (modifierKeys ''shift''))) =
      get_prop (currentUseIcon (settingsManager initial_prefs)) (useIcon (modifierKeys ''shift''))"
    by code_simp
  from reconcile_noop[of initial_prefs "''shift''"] s i u show ?thesis by blast
qed

section \<open>Reset to defaults\<close>

lemma setString_None:
  assumes "on_settings (setString key v) w = (None, w')"
  shows "currentSymbols (settingsManager w') = assign_prop (currentSymbols (settingsManager w)) key v
    \<and> savedSymbols (settingsManager w') = savedSymbols (settingsManager w)
    \<and> simpleManager w' = simpleManager w
    \<and> key \<in> set string_keys"
  using assms
  by (auto simp: on_settings_def setString_def set_string_def
      split: sum.splits prod.splits jsval.splits if_splits)

text \<open>
  The loop of \<^verbatim>\<open>applyDefaults\<close>, when it runs to its end: every key it was given holds the
  default paired with it, and no other property of the cache has changed.
\<close>

lemma applyDefaults_each_sets:
  assumes "distinct (map snd iks)" and "applyDefaults_each iks w = (None, w')"
  shows "simpleManager w' = simpleManager w
     \<and> (\<forall>(i, key)\<in>set iks. get_prop (currentSymbols (settingsManager w')) key =
            array_at (defaultValues (simpleManager w)) i)
     \<and> (\<forall>k. k \<notin> snd ` set iks \<longrightarrow>
            get_prop (currentSymbols (settingsManager w')) k =
            get_prop (currentSymbols (settingsManager w)) k)"
  using assms
proof (induction iks w rule: applyDefaults_each.induct)
  case (1 w)
  then show ?case by simp
next
  case (2 i key rest w)
  let ?v = "array_at (defaultValues (simpleManager w)) i"
  from "2.prems" have dist: "distinct (map snd rest)" and fresh: "key \<notin> snd ` set rest"
    by auto
  show ?case
  proof (cases "get_prop (currentSymbols (settingsManager w)) key \<noteq> ?v")
    case True
    with "2.prems"(2) obtain w1 w2 where
      u: "updateEntry key ?v w = (None, w1)" and
      s: "on_settings (setString key ?v) w1 = (None, w2)" and
      r: "applyDefaults_each rest w2 = (None, w')"
      by (auto simp: Let_def split: prod.splits option.splits)
    from setString_None[OF s] proto_no_string_key have plain: "key \<noteq> ''__proto__''"
      by auto
    from updateEntry_frame[OF u] setString_None[OF s]
    have f: "simpleManager w2 = simpleManager w"
      "currentSymbols (settingsManager w2) = assign_prop (currentSymbols (settingsManager w)) key ?v"
      by simp_all
    from "2.IH"(1)[OF refl True u[symmetric] refl s[symmetric] refl dist r] f fresh plain
    show ?thesis by (auto simp: get_prop_assign_prop)
  next
    case False
    with "2.prems"(2) have r: "applyDefaults_each rest w = (None, w')"
      by (simp add: Let_def)
    from "2.IH"(2)[OF refl _ dist r] False fresh show ?thesis by auto
  qed
qed

text \<open>
  What holds of a manager whose key list has no repetition: once \<^verbatim>\<open>applyDefaults\<close> has
  run to its end, \<^verbatim>\<open>isCurrentEqualToDefault\<close> returns true, and every key is cached as
  the entry of the default list paired with it by position.
\<close>

lemma applyDefaults_completed:
  assumes "distinct (keys (simpleManager w))" and "fst (applyDefaults w) = None"
  shows "isCurrentEqualToDefault (simpleManager w) (settingsManager (snd (applyDefaults w)))
     \<and> (\<forall>i<length (keys (simpleManager w)).
          get_prop (currentSymbols (settingsManager (snd (applyDefaults w))))
            (keys (simpleManager w) ! i) = array_at (defaultValues (simpleManager w)) i)"
proof -
  let ?w0 = "debug (Applying_defaults (defaultValues (simpleManager w))) w"
  let ?iks = "enumerate 0 (keys (simpleManager w))"
  from assms(2) have "applyDefaults_each ?iks ?w0 = (None, snd (applyDefaults w))"
    by (cases "applyDefaults w") (simp add: applyDefaults_def)
  moreover have "distinct (map snd ?iks)"
    using assms(1) by (simp add: map_snd_enumerate)
  ultimately have each: "\<forall>(i, key)\<in>set ?iks.
      get_prop (currentSymbols (settingsManager (snd (applyDefaults w)))) key =
      array_at (defaultValues (simpleManager ?w0)) i"
    using applyDefaults_each_sets by blast
  then have "isCurrentEqualToDefault (simpleManager w) (settingsManager (snd (applyDefaults w)))"
    by (simp add: isCurrentEqualToDefault_def list_all_iff debug_def)
  moreover have "get_prop (currentSymbols (settingsManager (snd (applyDefaults w))))
            (keys (simpleManager w) ! i) = array_at (defaultValues (simpleManager w)) i"
    if "i < length (keys (simpleManager w))" for i
  proof -
    from that have "(i, keys (simpleManager w) ! i) \<in> set ?iks"
      by (simp add: in_set_enumerate_eq)
    with each show ?thesis by (auto simp: debug_def)
  qed
  ultimately show ?thesis by blast
qed

text \<open>
  C2: after \<^verbatim>\<open>applyDefaults\<close> has completed, \<^verbatim>\<open>isCurrentEqualToDefault\<close> should return
  true, every key being cached as its default. For the one manager that the program
  builds, the group over twenty-four keys and eight defaults, a reset of the window opened
  on the schema defaults does not complete: it writes the second entry of the preset,
  \<^verbatim>\<open>Caps\<close>, to \<^verbatim>\<open>shift-icon-path\<close>, whose default is the empty string, and raises at
  the next key. In the state it leaves \<^verbatim>\<open>isCurrentEqualToDefault\<close> is false.
\<close>

theorem group_reset_not_equalsDefault:
  "simpleManager initial_prefs = group_manager
   \<and> fst (applyDefaults initial_prefs) \<noteq> None
   \<and> \<not> isCurrentEqualToDefault (simpleManager initial_prefs)
          (settingsManager (snd (applyDefaults initial_prefs)))
   \<and> get_prop (currentSymbols (settingsManager (snd (applyDefaults initial_prefs))))
        ''shift-icon-path'' = JString ''Caps''
   \<and> schema_default ''shift-icon-path'' = JString ''''"
  by code_simp

text \<open>
  C1: \<^verbatim>\<open>isCurrentEqualToDefault()\<close> of the group should be true exactly when every key of
  the group holds its schema default. On a window opened on a store that holds the schema
  defaults every key of the group has its default as cached value, and the function
  returns false: the group pairs its twenty-four keys with the eight entries of the
  symbol preset, so the empty \<^verbatim>\<open>shift-icon-path\<close> is compared with the second entry.
\<close>

theorem group_default_check_fails:
  "list_all (\<lambda>key. cached_value (initialize schema_store) key = schema_default key) group_keys
   \<and> \<not> isCurrentEqualToDefault group_manager (initialize schema_store)"
  by code_simp

text \<open>
  The same on every store: a key from the ninth on is paired with \<^verbatim>\<open>undefined\<close>, and
  \<^verbatim>\<open>alt-symbol\<close>, the tenth, is cached as a string.
\<close>

lemma alt_symbol_initialize:
  "get_prop (currentSymbols (initialize st)) ''alt-symbol'' = JString (get_string st ''alt-symbol'')"
  by (simp add: initialize_def loadCurrentState_def MODIFIERS_def modifierKeys_def Let_def
      assign_prop_def get_prop_def)

lemma group_never_at_default:
  "\<not> isCurrentEqualToDefault group_manager (initialize st)"
proof
  assume "isCurrentEqualToDefault group_manager (initialize st)"
  then have a: "\<forall>(i, key)\<in>set (enumerate 0 group_keys).
      get_prop (currentSymbols (initialize st)) key = array_at Symbols_preset i"
    by (simp add: isCurrentEqualToDefault_def group_manager_def list_all_iff)
  have "(9, ''alt-symbol'') \<in> set (enumerate 0 group_keys)" by code_simp
  with a have "get_prop (currentSymbols (initialize st)) ''alt-symbol'' = array_at Symbols_preset 9"
    by blast
  moreover have "array_at Symbols_preset 9 = JUndefined" by code_simp
  ultimately show False by (simp add: alt_symbol_initialize)
qed

text \<open>
  A click on reset in the window opened on the schema defaults does not run to its end.
  The second pair of the group is \<^verbatim>\<open>shift-icon-path\<close> with the preset's second entry,
  which is written to the cache and to the store; the third pair asks the store to hold
  a glyph under the boolean key \<^verbatim>\<open>shift-use-icon\<close>, and that write is refused.
\<close>

lemma group_reset_raises:
  "fst (handle Reset_click initial_prefs) = Some WriteError
   \<and> get_prop (currentSymbols (settingsManager (snd (handle Reset_click initial_prefs))))
        ''shift-icon-path'' = JString ''Caps''
   \<and> get_string (settings (settingsManager (snd (handle Reset_click initial_prefs))))
        ''shift-icon-path'' = ''Caps''"
  by code_simp

section \<open>Saving the preset\<close>

lemma promote_fold_frame:
  "currentSymbols (foldl (\<lambda>s key. s\<lparr>savedSymbols :=
        assign_prop (savedSymbols s) key (get_prop (currentSymbols s) key)\<rparr>) sm ks) = currentSymbols sm
   \<and> settings (foldl (\<lambda>s key. s\<lparr>savedSymbols :=
        assign_prop (savedSymbols s) key (get_prop (currentSymbols s) key)\<rparr>) sm ks) = settings sm"
  by (induction ks arbitrary: sm) simp_all

lemma promote_fold:
  "map_of (savedSymbols (foldl (\<lambda>s key. s\<lparr>savedSymbols :=
        assign_prop (savedSymbols s) key (get_prop (currentSymbols s) key)\<rparr>) sm ks)) k =
     (if k \<in> set ks \<and> \<not> (k = ''__proto__'' \<and> map_of (savedSymbols sm) k = None)
      then Some (get_prop (currentSymbols sm) k) else map_of (savedSymbols sm) k)"
proof (induction ks arbitrary: sm)
  case Nil
  then show ?case by simp
next
  case (Cons a ks)
  let ?f = "\<lambda>s key. s\<lparr>savedSymbols :=
        assign_prop (savedSymbols s) key (get_prop (currentSymbols s) key)\<rparr>"
  let ?sm1 = "?f sm a"
  have e: "map_of (savedSymbols ?sm1) k =
      (if k = a \<and> \<not> (a = ''__proto__'' \<and> map_of (savedSymbols sm) a = None)
       then Some (get_prop (currentSymbols sm) a) else map_of (savedSymbols sm) k)"
    by (simp add: map_of_assign_prop)
  have c: "currentSymbols ?sm1 = currentSymbols sm" by simp
  have "map_of (savedSymbols (foldl ?f sm (a # ks))) k =
      (if k \<in> set ks \<and> \<not> (k = ''__proto__'' \<and> map_of (savedSymbols ?sm1) k = None)
       then Some (get_prop (currentSymbols ?sm1) k) else map_of (savedSymbols ?sm1) k)"
    using Cons.IH[of ?sm1] by simp
  also have "\<dots> =
      (if k \<in> set (a # ks) \<and> \<not> (k = ''__proto__'' \<and> map_of (savedSymbols sm) k = None)
       then Some (get_prop (currentSymbols sm) k) else map_of (savedSymbols sm) k)"
    unfolding e c
    by (cases "k = a"; cases "k \<in> set ks"; cases "map_of (savedSymbols sm) k") auto
  finally show ?case .
qed

lemma promote_fold_distinct:
  "distinct (map fst (savedSymbols sm)) \<Longrightarrow>
   distinct (map fst (savedSymbols (foldl (\<lambda>s key. s\<lparr>savedSymbols :=
        assign_prop (savedSymbols s) key (get_prop (currentSymbols s) key)\<rparr>) sm ks)))"
  by (induction ks arbitrary: sm) (auto simp: distinct_assign_prop)

lemma Variant_ass_Inr:
  "Variant_ass ob = Inr d \<Longrightarrow> map (\<lambda>(k, t). (k, JString t)) d = ob"
  by (induction ob arbitrary: d rule: Variant_ass.induct) (auto split: sum.splits)

lemma saveCurrentAsPreset_state:
  "settingsManager (snd (saveCurrentAsPreset w)) =
     (case Variant_ass (savedSymbols (foldl (\<lambda>s key. s\<lparr>savedSymbols :=
        assign_prop (savedSymbols s) key (get_prop (currentSymbols s) key)\<rparr>)
          (settingsManager w) (keys (simpleManager w)))) of
        Inl e \<Rightarrow> foldl (\<lambda>s key. s\<lparr>savedSymbols :=
          assign_prop (savedSymbols s) key (get_prop (currentSymbols s) key)\<rparr>)
          (settingsManager w) (keys (simpleManager w))
      | Inr d \<Rightarrow> (foldl (\<lambda>s key. s\<lparr>savedSymbols :=
          assign_prop (savedSymbols s) key (get_prop (currentSymbols s) key)\<rparr>)
          (settingsManager w) (keys (simpleManager w)))
            \<lparr>settings := (settings (foldl (\<lambda>s key. s\<lparr>savedSymbols :=
              assign_prop (savedSymbols s) key (get_prop (currentSymbols s) key)\<rparr>)
              (settingsManager w) (keys (simpleManager w))))\<lparr>preset := d\<rparr>\<rparr>)
   \<and> simpleManager (snd (saveCurrentAsPreset w)) = simpleManager w
   \<and> (fst (saveCurrentAsPreset w) = None \<longleftrightarrow>
        (\<exists>d. Variant_ass (savedSymbols (foldl (\<lambda>s key. s\<lparr>savedSymbols :=
          assign_prop (savedSymbols s) key (get_prop (currentSymbols s) key)\<rparr>)
          (settingsManager w) (keys (simpleManager w)))) = Inr d))"
  by (simp add: saveCurrentAsPreset_def Let_def on_settings_def setSavedSymbols_def debug_def
      split: sum.splits)

lemma saveCurrentAsPreset_result:
  assumes "saveCurrentAsPreset w = (r, w')"
  shows "map_of (savedSymbols (settingsManager w')) k =
           (if k \<in> set (keys (simpleManager w))
               \<and> \<not> (k = ''__proto__'' \<and> map_of (savedSymbols (settingsManager w)) k = None)
            then Some (get_prop (currentSymbols (settingsManager w)) k)
            else map_of (savedSymbols (settingsManager w)) k)"
    and "currentSymbols (settingsManager w') = currentSymbols (settingsManager w)"
    and "simpleManager w' = simpleManager w"
    and "r = None \<Longrightarrow> map (\<lambda>(k, t). (k, JString t)) (preset (settings (settingsManager w'))) =
           savedSymbols (settingsManager w')"
proof -
  let ?sm1 = "foldl (\<lambda>s key. s\<lparr>savedSymbols :=
      assign_prop (savedSymbols s) key (get_prop (currentSymbols s) key)\<rparr>)
      (settingsManager w) (keys (simpleManager w))"
  from assms have w': "w' = snd (saveCurrentAsPreset w)" and r: "r = fst (saveCurrentAsPreset w)"
    by simp_all
  have saved: "savedSymbols (settingsManager w') = savedSymbols ?sm1"
    and cur: "currentSymbols (settingsManager w') = currentSymbols ?sm1"
    unfolding w' by (simp_all add: saveCurrentAsPreset_state split: sum.splits)
  show "map_of (savedSymbols (settingsManager w')) k =
           (if k \<in> set (keys (simpleManager w))
               \<and> \<not> (k = ''__proto__'' \<and> map_of (savedSymbols (settingsManager w)) k = None)
            then Some (get_prop (currentSymbols (settingsManager w)) k)
            else map_of (savedSymbols (settingsManager w)) k)"
    unfolding saved by (rule promote_fold)
  show "currentSymbols (settingsManager w') = currentSymbols (settingsManager w)"
    unfolding cur by (simp add: promote_fold_frame)
  show "simpleManager w' = simpleManager w"
    unfolding w' by (simp add: saveCurrentAsPreset_state)
  show "map (\<lambda>(k, t). (k, JString t)) (preset (settings (settingsManager w'))) =
           savedSymbols (settingsManager w')" if "r = None"
  proof -
    from that r obtain d where d: "Variant_ass (savedSymbols ?sm1) = Inr d"
      using saveCurrentAsPreset_state[of w] by auto
    then have "preset (settings (settingsManager w')) = d"
      unfolding w' by (simp add: saveCurrentAsPreset_state)
    with Variant_ass_Inr[OF d] saved show ?thesis by simp
  qed
qed

text \<open>
  C6: \<^verbatim>\<open>saveCurrentAsPreset\<close> adds and never destroys. Whatever the outcome, an entry of
  the saved map under a key that is not in the key list is as before (present with the
  same value, or absent as before), and every key of the list holds the current value
  (but \<^verbatim>\<open>__proto__\<close> where the saved map has no own property of that name: the
  assignment then writes no property). When the call completes, the aggregate written to
  the store is the saved map itself, entry by entry, the untouched entries among them.
\<close>

theorem promote_additive:
  assumes "saveCurrentAsPreset w = (r, w')"
  shows "(\<forall>k. k \<notin> set (keys (simpleManager w)) \<longrightarrow>
            map_of (savedSymbols (settingsManager w')) k =
            map_of (savedSymbols (settingsManager w)) k)
     \<and> (\<forall>k\<in>set (keys (simpleManager w)).
            map_of (savedSymbols (settingsManager w')) k =
            (if k = ''__proto__'' \<and> map_of (savedSymbols (settingsManager w)) k = None then None
             else Some (get_prop (currentSymbols (settingsManager w)) k)))
     \<and> (r = None \<longrightarrow>
            map (\<lambda>(k, t). (k, JString t)) (preset (settings (settingsManager w'))) =
            savedSymbols (settingsManager w'))"
  using saveCurrentAsPreset_result[OF assms] by simp

theorem promote_additive_witness:
  "''theme'' \<notin> set (keys (simpleManager symbols_only_prefs))
   \<and> ''shift-symbol'' \<in> set (keys (simpleManager symbols_only_prefs))
   \<and> fst (saveCurrentAsPreset symbols_only_prefs) = None
   \<and> map_of (savedSymbols (settingsManager (snd (saveCurrentAsPreset symbols_only_prefs))))
        ''theme'' = Some (JString ''dark'')
   \<and> map_of (savedSymbols (settingsManager (snd (saveCurrentAsPreset symbols_only_prefs))))
        ''shift-symbol'' = Some (JString ''S'')
   \<and> map (\<lambda>(k, t). (k, JString t))
        (preset (settings (settingsManager (snd (saveCurrentAsPreset symbols_only_prefs))))) =
      savedSymbols (settingsManager (snd (saveCurrentAsPreset symbols_only_prefs)))"
proof -
  have foreign: "''theme'' \<notin> set (keys (simpleManager symbols_only_prefs))" by code_simp
  have own: "''shift-symbol'' \<in> set (keys (simpleManager symbols_only_prefs))" by code_simp
  have completes: "fst (saveCurrentAsPreset symbols_only_prefs) = None" by code_simp
  have before: "map_of (savedSymbols (settingsManager symbols_only_prefs)) ''theme'' =
      Some (JString ''dark'')"
    by code_simp
  have cur: "get_prop (currentSymbols (settingsManager symbols_only_prefs)) ''shift-symbol'' =
      JString ''S''"
    by code_simp
  have "saveCurrentAsPreset symbols_only_prefs =
      (fst (saveCurrentAsPreset symbols_only_prefs), snd (saveCurrentAsPreset symbols_only_prefs))"
    by simp
  from promote_additive[OF this] foreign own completes before cur show ?thesis by simp
qed

text \<open>
  What holds of a completed save: when every key of the list is cached, the cache equals
  the saved preset afterwards, and a settings manager initialised afresh on the store
  reads the saved map back.
\<close>

lemma promote_equalsSaved:
  assumes "saveCurrentAsPreset w = (r, w')"
    and "\<forall>k\<in>set (keys (simpleManager w)).
           get_prop (currentSymbols (settingsManager w)) k \<noteq> JUndefined"
    and "''__proto__'' \<notin> set (keys (simpleManager w))"
  shows "isCurrentEqualToSaved (simpleManager w') (settingsManager w')"
  using assms(2,3) saveCurrentAsPreset_result(1,2,3)[OF assms(1)]
  by (auto simp: isCurrentEqualToSaved_def currentDiffersFromSaved_def list_ex_iff get_prop_def
      nullish_def split: jsval.splits option.splits)

lemma deep_unpack_fold:
  "distinct (map fst acc @ map fst d) \<Longrightarrow> ''__proto__'' \<notin> fst ` set d \<Longrightarrow>
     foldl (\<lambda>ob (k, t). assign_prop ob k (JString t)) acc d =
     acc @ map (\<lambda>(k, t). (k, JString t)) d"
proof (induction d arbitrary: acc)
  case Nil
  then show ?case by simp
next
  case (Cons p d)
  obtain k t where p: "p = (k, t)" by (cases p)
  from Cons.prems p have "k \<notin> fst ` set acc" and "k \<noteq> ''__proto__''" by auto
  then have "assign_prop acc k (JString t) = acc @ [(k, JString t)]"
    by (rule assign_prop_fresh)
  moreover from Cons.prems p have "distinct (map fst (acc @ [(k, JString t)]) @ map fst d)"
    and "''__proto__'' \<notin> fst ` set d"
    by auto
  ultimately show ?case using Cons.IH[of "acc @ [(k, JString t)]"] p by simp
qed

lemma savedSymbols_initialize: "savedSymbols (initialize st) = deep_unpack (preset st)"
  by (simp add: initialize_def loadCurrentState_def MODIFIERS_def Let_def)

lemma promote_roundtrip:
  assumes "saveCurrentAsPreset w = (None, w')"
    and "distinct (map fst (savedSymbols (settingsManager w)))"
    and "map_of (savedSymbols (settingsManager w)) ''__proto__'' = None"
  shows "savedSymbols (initialize (settings (settingsManager w'))) = savedSymbols (settingsManager w')"
proof -
  let ?d = "preset (settings (settingsManager w'))"
  let ?J = "\<lambda>(k, t). (k, JString t)"
  from saveCurrentAsPreset_result(4)[OF assms(1)]
  have m: "map ?J ?d = savedSymbols (settingsManager w')" by simp
  have f: "map fst (map ?J ?d) = map fst ?d" by (simp add: case_prod_unfold)
  with m have k: "map fst ?d = map fst (savedSymbols (settingsManager w'))" by simp
  from assms have "distinct (map fst (savedSymbols (settingsManager w')))"
    by (auto simp: saveCurrentAsPreset_def Let_def on_settings_def setSavedSymbols_def debug_def
        promote_fold_distinct split: sum.splits)
  with k have d: "distinct (map fst [] @ map fst ?d)" by simp
  from saveCurrentAsPreset_result(1)[OF assms(1), of "''__proto__''"] assms(3)
  have "map_of (savedSymbols (settingsManager w')) ''__proto__'' = None" by simp
  then have "''__proto__'' \<notin> fst ` set (savedSymbols (settingsManager w'))"
    by (simp add: map_of_eq_None_iff)
  with k have "''__proto__'' \<notin> fst ` set ?d" by (metis list.set_map)
  from deep_unpack_fold[OF d this] m have "deep_unpack ?d = savedSymbols (settingsManager w')"
    by (simp add: deep_unpack_def)
  then show ?thesis by (simp add: savedSymbols_initialize)
qed

text \<open>
  A key of the list that the cache of strings does not hold makes the comparison with
  the saved preset fail, whatever the saved map is.
\<close>

lemma uncached_key_never_saved:
  assumes "key \<in> set ks" and "get_prop (currentSymbols sm) key = JUndefined"
  shows "currentDiffersFromSaved sm ks"
proof -
  have "nullish (get_prop (savedSymbols sm) key) (JString '''') \<noteq> JUndefined"
    by (simp add: nullish_def split: jsval.splits)
  with assms show ?thesis
    unfolding currentDiffersFromSaved_def list_ex_iff by metis
qed

text \<open>
  C3: after \<^verbatim>\<open>saveCurrentAsPreset()\<close> over the key set of the group,
  \<^verbatim>\<open>isCurrentEqualToSaved()\<close> should be true. On the window opened on the schema defaults
  it is false after the save: the key list of the group holds the use-icon keys, which
  the cache of strings never contains, so each of them reads \<^verbatim>\<open>undefined\<close> on the left
  and the empty string on the right.
\<close>

theorem group_promote_not_equalsSaved:
  "fst (fillPreferencesWindow schema_store) = None
   \<and> simpleManager initial_prefs = group_manager
   \<and> \<not> isCurrentEqualToSaved (simpleManager initial_prefs)
          (settingsManager (snd (saveCurrentAsPreset initial_prefs)))"
  by code_simp

text \<open>
  C4: the saved map should never hold a use-icon key. After one
  \<^verbatim>\<open>saveCurrentAsPreset()\<close> on the window opened on the schema defaults,
  \<^verbatim>\<open>shift-use-icon\<close> is an own property of the saved map, and its value is not a string
  but \<^verbatim>\<open>undefined\<close>.
\<close>

theorem group_promote_saves_use_icon_key:
  "''shift-use-icon'' \<in>
     set (Object_keys (savedSymbols (settingsManager (snd (saveCurrentAsPreset initial_prefs)))))
   \<and> get_prop (savedSymbols (settingsManager (snd (saveCurrentAsPreset initial_prefs))))
        ''shift-use-icon'' = JUndefined
   \<and> ''shift-use-icon'' \<notin> set (Object_keys (savedSymbols (settingsManager initial_prefs)))"
  by code_simp

text \<open>
  The click on save in that window: the saved map in memory has grown to the twenty-four
  keys of the group, the variant cannot be built from it, and the preset in the store is
  as it was.
\<close>

lemma group_save_raises:
  "fst (handle Save_click initial_prefs) = Some TypeError
   \<and> preset (settings (settingsManager (snd (handle Save_click initial_prefs)))) = []
   \<and> length (Object_keys (savedSymbols (settingsManager (snd (handle Save_click initial_prefs))))) = 24"
  by code_simp

section \<open>The buttons and the state of the cache\<close>

text \<open>
  What \<^verbatim>\<open>_updateButtonStates\<close> assigns: the negations of the two checks of the manager.
\<close>

lemma updateButtonStates_assigns:
  "resetSensitive (updateButtonStates w) =
     (\<not> isCurrentEqualToDefault (simpleManager w) (settingsManager w))
   \<and> saveVisible (updateButtonStates w) =
     (\<not> isCurrentEqualToSaved (simpleManager w) (settingsManager w))"
  by (simp add: updateButtonStates_def debug_def Let_def)

text \<open>
  C9: after every mutation trigger the reset button should be enabled exactly when the
  cache is not at the defaults, and the save button visible exactly when the cache differs
  from the saved preset. In the window of the program, opened on the schema defaults, the
  user types \<^verbatim>\<open>S\<close> into the entry of shift and then the default glyph again. Both edits
  complete, each writes the cache through \<^verbatim>\<open>setString\<close> and recomputes the buttons.
  After the second one every key of the group is at its schema default, and yet the reset
  button is enabled: the check that the button follows is never true on the key list of
  the group.
\<close>

theorem group_affordances_stuck:
  "simpleManager retyped_prefs = group_manager
   \<and> fst (handle (User_typed ''shift'' ''S'') initial_prefs) = None
   \<and> get_prop (currentSymbols (settingsManager typed_prefs)) ''shift-symbol'' = JString ''S''
   \<and> fst (handle (User_typed ''shift'' [CHR 0xE2, CHR 0x87, CHR 0xA7]) typed_prefs) = None
   \<and> last (console retyped_prefs) = Button_states True True
   \<and> at_defaults (settingsManager retyped_prefs) group_keys
   \<and> resetSensitive retyped_prefs"
  by code_simp

text \<open>
  The save button likewise: when the preset in the store holds the value of every symbol
  and icon-path key, the cache equals the saved preset after the two edits, and the save
  button is visible.
\<close>

lemma group_save_button_stuck:
  "at_defaults (settingsManager preset_prefs) group_keys
   \<and> at_saved (settingsManager preset_prefs)
   \<and> resetSensitive preset_prefs
   \<and> saveVisible preset_prefs"
  by code_simp

end
